theory Spec2Isabelle
  imports Complex_Main "HOL-Library.Sublist"
begin

section \<open>Python values, exceptions and the outside world\<close>

text \<open>
  The three modules of the repository (\<open>tools/scaleway_cli.py\<close>, \<open>langchain_agent.py\<close>,
  \<open>main.py\<close>) pass around JSON-shaped Python values: what \<open>json.loads\<close> returns, the
  \<open>parameters\<close> mapping of a tool call and the mappings the tools return. A dictionary is
  an association list read with \<open>map_of\<close> (every key is a string, as in JSON), a \<open>str\<close> is
  a \<open>string\<close> holding the UTF-8 bytes of the text. Numbers are the integers; JSON numbers
  with a fraction or an exponent lie outside the value model.
\<close>

datatype pyval =
    PNone
  | PBool bool
  | PInt int
  | PStr string
  | PList "pyval list"
  | PDict "(string \<times> pyval) list"

text \<open>A raised exception is a value: its class and the text \<open>str(e)\<close> gives.\<close>

datatype exn =
    TypeError string
  | AttributeError string
  | KeyError string
  | IndexError string
  | OSError string
  | JSONDecodeError string
  | HTTPError string
  | ConnectionError string
  | ValidationError string
  | AgentError string

fun exn_str :: "exn \<Rightarrow> string" where
  "exn_str (TypeError m) = m"
| "exn_str (AttributeError m) = m"
| "exn_str (KeyError m) = m"
| "exn_str (IndexError m) = m"
| "exn_str (OSError m) = m"
| "exn_str (JSONDecodeError m) = m"
| "exn_str (HTTPError m) = m"
| "exn_str (ConnectionError m) = m"
| "exn_str (ValidationError m) = m"
| "exn_str (AgentError m) = m"

fun type_name :: "pyval \<Rightarrow> string" where
  "type_name PNone = ''NoneType''"
| "type_name (PBool _) = ''bool''"
| "type_name (PInt _) = ''int''"
| "type_name (PStr _) = ''str''"
| "type_name (PList _) = ''list''"
| "type_name (PDict _) = ''dict''"

text \<open>Truth value testing, as \<open>not cidr\<close> and \<open>if not prompt\<close> use it.\<close>

fun truthy :: "pyval \<Rightarrow> bool" where
  "truthy PNone = False"
| "truthy (PBool b) = b"
| "truthy (PInt i) = (i \<noteq> 0)"
| "truthy (PStr s) = (s \<noteq> [])"
| "truthy (PList xs) = (xs \<noteq> [])"
| "truthy (PDict d) = (d \<noteq> [])"

text \<open>
  The operator \<open>==\<close>. A \<open>bool\<close> is an \<open>int\<close> in Python (\<open>True == 1\<close>), lists compare
  element by element and dictionaries as mappings, whatever the insertion order.
\<close>

lemma size_dict_entry:
  "(k, x) \<in> set d \<Longrightarrow> size x < Suc (size_list (size_prod (\<lambda>_. 0) size) d)"
  by (induction d) auto

function py_eq :: "pyval \<Rightarrow> pyval \<Rightarrow> bool" where
  "py_eq PNone v = (v = PNone)"
| "py_eq (PBool a) v =
     (case v of PBool b \<Rightarrow> a = b | PInt i \<Rightarrow> i = (if a then 1 else 0) | _ \<Rightarrow> False)"
| "py_eq (PInt i) v =
     (case v of PInt j \<Rightarrow> i = j | PBool b \<Rightarrow> i = (if b then 1 else 0) | _ \<Rightarrow> False)"
| "py_eq (PStr s) v = (v = PStr s)"
| "py_eq (PList xs) v =
     (case v of PList ys \<Rightarrow> list_all2 py_eq xs ys | _ \<Rightarrow> False)"
| "py_eq (PDict a) v =
     (case v of
        PDict b \<Rightarrow>
          set (map fst a) = set (map fst b) \<and>
          (\<forall>(k, x) \<in> set a. map_of a k = Some x \<longrightarrow>
             (case map_of b k of Some y \<Rightarrow> py_eq x y | None \<Rightarrow> False))
      | _ \<Rightarrow> False)"
  by pat_completeness auto
termination
  by (relation "measure (\<lambda>(a, b). size a)") (auto simp: less_Suc_eq_le size_list_estimation' dest: size_dict_entry)

text \<open>\<open>obj.get(key, default)\<close>: only a dictionary has the method.\<close>

fun py_get :: "pyval \<Rightarrow> string \<Rightarrow> pyval \<Rightarrow> exn + pyval" where
  "py_get (PDict d) k dflt = Inr (case map_of d k of Some v \<Rightarrow> v | None \<Rightarrow> dflt)"
| "py_get v k dflt =
     Inl (AttributeError ([CHR 0x27] @ type_name v @ ''' object has no attribute 'get'' @ [CHR 0x27]))"

text \<open>\<open>obj[key]\<close> with a string key.\<close>

fun py_item :: "pyval \<Rightarrow> string \<Rightarrow> exn + pyval" where
  "py_item (PDict d) k =
     (case map_of d k of Some v \<Rightarrow> Inr v | None \<Rightarrow> Inl (KeyError ([CHR 0x27] @ k @ [CHR 0x27])))"
| "py_item (PList xs) k = Inl (TypeError ''list indices must be integers or slices, not str'')"
| "py_item (PStr s) k = Inl (TypeError (''string indices must be integers, not 'str'' @ [CHR 0x27]))"
| "py_item v k = Inl (TypeError ([CHR 0x27] @ type_name v @ ''' object is not subscriptable''))"

text \<open>\<open>obj[0]\<close>. No dictionary of the model has the key \<open>0\<close>: its keys are strings.\<close>

fun py_first :: "pyval \<Rightarrow> exn + pyval" where
  "py_first (PList xs) =
     (case xs of [] \<Rightarrow> Inl (IndexError ''list index out of range'') | x # _ \<Rightarrow> Inr x)"
| "py_first (PStr s) =
     (case s of [] \<Rightarrow> Inl (IndexError ''string index out of range'') | c # _ \<Rightarrow> Inr (PStr [c]))"
| "py_first (PDict d) = Inl (KeyError ''0'')"
| "py_first v = Inl (TypeError ([CHR 0x27] @ type_name v @ ''' object is not subscriptable''))"

text \<open>
  The items a \<open>for\<close> loop visits: the elements of a list, the characters of a string, the
  keys of a dictionary; anything else is not iterable.
\<close>

fun py_iter :: "pyval \<Rightarrow> exn + pyval list" where
  "py_iter (PList xs) = Inr xs"
| "py_iter (PStr s) = Inr (map (\<lambda>c. PStr [c]) s)"
| "py_iter (PDict d) = Inr (map (\<lambda>(k, _). PStr k) d)"
| "py_iter v = Inl (TypeError ([CHR 0x27] @ type_name v @ ''' object is not iterable''))"

text \<open>
  What the program reaches outside itself: the process environment, the subprocess started
  by \<open>subprocess.run\<close>, \<open>json.loads\<close>, the built-in \<open>str()\<close> of a value that is not a
  string, \<open>requests.post\<close>, and the agent executor of the LangChain library.
\<close>

record completed_process =
  returncode :: int
  stdout :: string
  stderr :: string

record http_response =
  status_code :: nat
  response_text :: string

record chat_message =
  role :: string
  content :: string

record payload =
  p_model :: string
  p_messages :: "chat_message list"
  p_temperature :: rat
  p_max_tokens :: int

record DeepSeekLLM =
  model :: string
  endpoint :: string
  api_key :: string
  temperature :: rat
  max_tokens :: int

record agent =
  agent_llm :: DeepSeekLLM
  agent_tools :: "string list"
  handle_parsing_errors :: bool
  max_iterations :: nat

record env =
  getenv :: "string \<Rightarrow> string option"
  subprocess_run :: "string list \<Rightarrow> exn + completed_process"
  json_loads :: "string \<Rightarrow> exn + pyval"
  py_str :: "pyval \<Rightarrow> string"
  requests_post :: "string \<Rightarrow> (string \<times> string) list \<Rightarrow> payload \<Rightarrow> exn + http_response"
  agent_run :: "agent \<Rightarrow> pyval \<Rightarrow> exn + pyval"

text \<open>A value inside an f-string: a string stands for itself, anything else goes through \<open>str()\<close>.\<close>

definition py_format :: "env \<Rightarrow> pyval \<Rightarrow> string" where
  "py_format e v = (case v of PStr s \<Rightarrow> s | _ \<Rightarrow> py_str e v)"

text \<open>\<open>os.getenv\<close> inside an f-string: an unset variable prints as \<open>None\<close>.\<close>

definition getenv_format :: "env \<Rightarrow> string \<Rightarrow> string" where
  "getenv_format e name = (case getenv e name of Some s \<Rightarrow> s | None \<Rightarrow> ''None'')"

section \<open>tools/scaleway\_cli.py\<close>

subsection \<open>\<open>str.strip\<close> and \<open>str.join\<close>\<close>

text \<open>
  The characters \<open>str.strip()\<close> removes, each as its UTF-8 bytes: the ASCII controls
  \<open>09\<close> to \<open>0D\<close> and \<open>1C\<close> to \<open>1F\<close>, the space, and the Unicode spaces U+0085, U+00A0, U+1680,
  U+2000 to U+200A, U+2028, U+2029, U+202F, U+205F and U+3000.
\<close>

definition whitespace :: "string list" where
  "whitespace =
     [[CHR 0x09], [CHR 0x0A], [CHR 0x0B], [CHR 0x0C], [CHR 0x0D],
      [CHR 0x1C], [CHR 0x1D], [CHR 0x1E], [CHR 0x1F], [CHR 0x20],
      [CHR 0xC2, CHR 0x85], [CHR 0xC2, CHR 0xA0], [CHR 0xE1, CHR 0x9A, CHR 0x80],
      [CHR 0xE2, CHR 0x80, CHR 0x80], [CHR 0xE2, CHR 0x80, CHR 0x81],
      [CHR 0xE2, CHR 0x80, CHR 0x82], [CHR 0xE2, CHR 0x80, CHR 0x83],
      [CHR 0xE2, CHR 0x80, CHR 0x84], [CHR 0xE2, CHR 0x80, CHR 0x85],
      [CHR 0xE2, CHR 0x80, CHR 0x86], [CHR 0xE2, CHR 0x80, CHR 0x87],
      [CHR 0xE2, CHR 0x80, CHR 0x88], [CHR 0xE2, CHR 0x80, CHR 0x89],
      [CHR 0xE2, CHR 0x80, CHR 0x8A], [CHR 0xE2, CHR 0x80, CHR 0xA8],
      [CHR 0xE2, CHR 0x80, CHR 0xA9], [CHR 0xE2, CHR 0x80, CHR 0xAF],
      [CHR 0xE2, CHR 0x81, CHR 0x9F], [CHR 0xE3, CHR 0x80, CHR 0x80]]"

function drop_leading :: "string list \<Rightarrow> string \<Rightarrow> string" where
  "drop_leading ws s =
     (case find (\<lambda>w. w \<noteq> [] \<and> prefix w s) ws of
        None \<Rightarrow> s
      | Some w \<Rightarrow> drop_leading ws (drop (length w) s))"
  by pat_completeness auto
termination
proof (relation "measure (\<lambda>(ws, s). length s)")
  show "wf (measure (\<lambda>(ws, s). length s))" by simp
next
  fix ws :: "string list" and s w :: string
  assume "find (\<lambda>w. w \<noteq> [] \<and> prefix w s) ws = Some w"
  then have "w \<noteq> []" and "prefix w s"
    by (auto simp: find_Some_iff)
  then have "s \<noteq> []" by auto
  with \<open>w \<noteq> []\<close> show "((ws, drop (length w) s), (ws, s)) \<in> measure (\<lambda>(ws, s). length s)"
    by simp
qed

definition strip :: "string \<Rightarrow> string" where
  "strip s = rev (drop_leading (map rev whitespace) (rev (drop_leading whitespace s)))"

text \<open>\<open>' '.join(command)\<close> raises on the first item that is not a string.\<close>

fun show_nat :: "nat \<Rightarrow> string" where
  "show_nat n =
     (if n < 10 then [char_of (48 + n)] else show_nat (n div 10) @ [char_of (48 + n mod 10)])"

fun str_items :: "nat \<Rightarrow> pyval list \<Rightarrow> exn + string list" where
  "str_items i [] = Inr []"
| "str_items i (PStr s # rest) =
     (case str_items (Suc i) rest of Inl e \<Rightarrow> Inl e | Inr ss \<Rightarrow> Inr (s # ss))"
| "str_items i (v # rest) =
     Inl (TypeError (''sequence item '' @ show_nat i @ '': expected str instance, ''
                     @ type_name v @ '' found''))"

subsection \<open>\<open>run_cli\<close>\<close>

text \<open>
  A call returns its outcome (the returned value, or the exception that leaves the function)
  together with the argument vectors it handed to \<open>subprocess.run\<close>. Logging is left out.
  \<open>cli_text\<close> is the string \<open>run_cli\<close> returns for a process that ran: the \<open>try\<close> body for exit
  status 0, the \<open>except subprocess.CalledProcessError\<close> branch (raised by \<open>check=True\<close>)
  otherwise. Any other exception of \<open>subprocess.run\<close> is not caught.
\<close>

definition cli_text :: "completed_process \<Rightarrow> string" where
  "cli_text result =
     (if returncode result = 0 then
        (let out = strip (stdout result); err = strip (stderr result)
         in if out \<noteq> [] then out else err)
      else
        ''CLI Error: '' @
          (if strip (stderr result) \<noteq> [] then strip (stderr result) else strip (stdout result)))"

definition run_cli :: "env \<Rightarrow> pyval list \<Rightarrow> (exn + string) \<times> string list list" where
  "run_cli e command =
     (case str_items 0 command of
        Inl err \<Rightarrow> (Inl err, [])
      | Inr argv \<Rightarrow>
          (case subprocess_run e argv of
             Inl err \<Rightarrow> (Inl err, [argv])
           | Inr result \<Rightarrow> (Inr (cli_text result), [argv])))"

subsection \<open>\<open>validate_vpc\<close>\<close>

definition dict_get :: "(string \<times> pyval) list \<Rightarrow> string \<Rightarrow> pyval \<Rightarrow> pyval" where
  "dict_get d k dflt = (case map_of d k of Some v \<Rightarrow> v | None \<Rightarrow> dflt)"

text \<open>The argument vector bound to \<open>command\<close> in \<open>validate_vpc\<close>.\<close>

definition vpc_command :: "env \<Rightarrow> string list" where
  "vpc_command e =
     [''scw'', ''vpc'', ''vpc'', ''list'',
      ''project-id='' @ getenv_format e ''SCW_DEFAULT_PROJECT_ID'',
      ''--output'', ''json'']"

definition vpc_conflict :: "env \<Rightarrow> pyval \<Rightarrow> pyval \<Rightarrow> pyval" where
  "vpc_conflict e cidr name =
     PDict [(''valid'', PBool False),
            (''reason'', PStr (''CIDR '' @ py_format e cidr
                               @ '' already used in private network '' @ [CHR 0x27]
                               @ py_format e name @ [CHR 0x27]))]"

text \<open>
  The inner loop \<open>for subnet in ...\<close>: \<open>Inr True\<close> when the \<open>if\<close> fires at some subnet,
  \<open>Inr False\<close> when the loop runs to its end, \<open>Inl\<close> when \<open>subnet.get\<close> raises first.
\<close>

fun scan_subnets :: "pyval \<Rightarrow> pyval list \<Rightarrow> exn + bool" where
  "scan_subnets cidr [] = Inr False"
| "scan_subnets cidr (subnet # rest) =
     (case py_get subnet ''cidr'' PNone of
        Inl err \<Rightarrow> Inl err
      | Inr c \<Rightarrow> if py_eq c cidr then Inr True else scan_subnets cidr rest)"

text \<open>The outer loop \<open>for net in networks\<close> with the two \<open>return\<close> statements.\<close>

fun scan_networks :: "env \<Rightarrow> pyval \<Rightarrow> pyval list \<Rightarrow> exn + pyval" where
  "scan_networks e cidr [] = Inr (PDict [(''valid'', PBool True)])"
| "scan_networks e cidr (net # rest) =
     (case py_get net ''subnets'' (PList []) of
        Inl err \<Rightarrow> Inl err
      | Inr subnets \<Rightarrow>
          (case py_iter subnets of
             Inl err \<Rightarrow> Inl err
           | Inr items \<Rightarrow>
               (case scan_subnets cidr items of
                  Inl err \<Rightarrow> Inl err
                | Inr True \<Rightarrow>
                    (case py_item net ''name'' of
                       Inl err \<Rightarrow> Inl err
                     | Inr name \<Rightarrow> Inr (vpc_conflict e cidr name))
                | Inr False \<Rightarrow> scan_networks e cidr rest)))"

text \<open>The body of the \<open>try\<close> block.\<close>

definition vpc_try :: "env \<Rightarrow> pyval \<Rightarrow> string \<Rightarrow> exn + pyval" where
  "vpc_try e cidr output =
     (case json_loads e output of
        Inl err \<Rightarrow> Inl err
      | Inr networks \<Rightarrow>
          (case py_iter networks of
             Inl err \<Rightarrow> Inl err
           | Inr nets \<Rightarrow> scan_networks e cidr nets))"

definition validate_vpc :: "env \<Rightarrow> (string \<times> pyval) list \<Rightarrow> (exn + pyval) \<times> string list list" where
  "validate_vpc e params =
     (let cidr = dict_get params ''cidr'' PNone;
          region = dict_get params ''region'' (PStr ''fr-par'')
      in if \<not> truthy cidr then
           (Inr (PDict [(''error'', PStr ''Missing 'cidr' parameter for VPC validation.'')]), [])
         else
           (case run_cli e (map PStr (vpc_command e)) of
              (Inl err, calls) \<Rightarrow> (Inl err, calls)
            | (Inr output, calls) \<Rightarrow>
                if prefix ''CLI Error'' output then (Inr (PDict [(''error'', PStr output)]), calls)
                else
                  (case vpc_try e cidr output of
                     Inr answer \<Rightarrow> (Inr answer, calls)
                   | Inl err \<Rightarrow>
                       (Inr (PDict [(''error'', PStr (''JSON parsing error: '' @ exn_str err))]),
                        calls))))"

subsection \<open>\<open>validate_object_storage\<close>\<close>

text \<open>
  Here \<open>region\<close> is an item of the argument vector as the mapping holds it, so the vector
  is a list of values and \<open>run_cli\<close> raises when \<open>region\<close> is not a string.
\<close>

definition bucket_command :: "pyval \<Rightarrow> pyval list" where
  "bucket_command region =
     [PStr ''scw'', PStr ''object'', PStr ''bucket'', PStr ''list'',
      PStr ''region'', region,
      PStr ''--output'', PStr ''json'']"

text \<open>The same vector when \<open>region\<close> is the string \<open>region\<close>.\<close>

definition bucket_argv :: "string \<Rightarrow> string list" where
  "bucket_argv region =
     [''scw'', ''object'', ''bucket'', ''list'', ''region'', region, ''--output'', ''json'']"

definition bucket_conflict :: "env \<Rightarrow> pyval \<Rightarrow> pyval \<Rightarrow> pyval" where
  "bucket_conflict e name region =
     PDict [(''valid'', PBool False),
            (''reason'', PStr (''Bucket '' @ [CHR 0x27] @ py_format e name @ [CHR 0x27]
                               @ '' already exists in region '' @ py_format e region))]"

fun scan_buckets :: "env \<Rightarrow> pyval \<Rightarrow> pyval \<Rightarrow> pyval list \<Rightarrow> exn + pyval" where
  "scan_buckets e name region [] = Inr (PDict [(''valid'', PBool True)])"
| "scan_buckets e name region (bucket # rest) =
     (case py_get bucket ''name'' PNone of
        Inl err \<Rightarrow> Inl err
      | Inr n \<Rightarrow>
          if py_eq n name then Inr (bucket_conflict e name region)
          else scan_buckets e name region rest)"

definition bucket_try :: "env \<Rightarrow> pyval \<Rightarrow> pyval \<Rightarrow> string \<Rightarrow> exn + pyval" where
  "bucket_try e name region output =
     (case json_loads e output of
        Inl err \<Rightarrow> Inl err
      | Inr buckets \<Rightarrow>
          (case py_iter buckets of
             Inl err \<Rightarrow> Inl err
           | Inr items \<Rightarrow> scan_buckets e name region items))"

definition validate_object_storage ::
  "env \<Rightarrow> (string \<times> pyval) list \<Rightarrow> (exn + pyval) \<times> string list list" where
  "validate_object_storage e params =
     (let name = dict_get params ''name'' PNone;
          region = dict_get params ''region'' (PStr ''fr-par'')
      in if \<not> truthy name then
           (Inr (PDict [(''error'', PStr ''Missing 'name' parameter for bucket validation.'')]), [])
         else
           (case run_cli e (bucket_command region) of
              (Inl err, calls) \<Rightarrow> (Inl err, calls)
            | (Inr output, calls) \<Rightarrow>
                if prefix ''CLI Error'' output then (Inr (PDict [(''error'', PStr output)]), calls)
                else
                  (case bucket_try e name region output of
                     Inr answer \<Rightarrow> (Inr answer, calls)
                   | Inl err \<Rightarrow>
                       (Inr (PDict [(''error'', PStr (''JSON parsing error: '' @ exn_str err))]),
                        calls))))"

subsection \<open>\<open>validate_resource\<close>\<close>

definition validate_resource ::
  "env \<Rightarrow> pyval \<Rightarrow> (string \<times> pyval) list \<Rightarrow> (exn + pyval) \<times> string list list" where
  "validate_resource e resource_type parameters =
     (if py_eq resource_type (PStr ''vpc'') then validate_vpc e parameters
      else if py_eq resource_type (PStr ''bucket'') then validate_object_storage e parameters
      else
        (Inr (PDict [(''error'',
                PStr (''Validation for resource type '' @ [CHR 0x27]
                      @ py_format e resource_type @ [CHR 0x27] @ '' not implemented.''))]),
         []))"

section \<open>langchain\_agent.py: \<open>list_resources\<close>\<close>

text \<open>
  Every item of both argument vectors is an f-string or a literal, so \<open>run_cli\<close> gets
  strings; what it raises is caught by \<open>except Exception\<close>.
\<close>

definition list_resources :: "env \<Rightarrow> pyval \<Rightarrow> pyval \<Rightarrow> (exn + pyval) \<times> string list list" where
  "list_resources e resource_type region =
     (let project_id = getenv_format e ''SCW_DEFAULT_PROJECT_ID'';
          run = (\<lambda>command.
                   case run_cli e (map PStr command) of
                     (Inr output, calls) \<Rightarrow> (Inr (PDict [(''items'', PStr output)]), calls)
                   | (Inl err, calls) \<Rightarrow> (Inr (PDict [(''error'', PStr (exn_str err))]), calls))
      in if py_eq resource_type (PStr ''vpc'') then
           run [''scw'', ''vpc'', ''vpc'', ''list'', ''project-id='' @ project_id,
                ''region='' @ py_format e region, ''--output'', ''json'']
         else if py_eq resource_type (PStr ''bucket'') then
           run [''scw'', ''object'', ''bucket'', ''list'', ''region='' @ py_format e region,
                ''project-id='' @ project_id, ''--output'', ''json'']
         else
           (Inr (PDict [(''error'',
                   PStr (''Unsupported resource type: '' @ py_format e resource_type))]),
            []))"

section \<open>langchain\_agent.py: the completion client\<close>

text \<open>
  \<open>DeepSeekLLM\<close> is a pydantic model whose fields \<open>model\<close>, \<open>endpoint\<close> and \<open>api_key\<close> are
  required strings: building one from an unset environment variable raises pydantic's
  \<open>ValidationError\<close>. The defaults are \<open>temperature = 0.3\<close> and \<open>max_tokens = 512\<close>.
\<close>

definition new_DeepSeekLLM :: "env \<Rightarrow> exn + DeepSeekLLM" where
  "new_DeepSeekLLM e =
     (case (getenv e ''MODEL_NAME'', getenv e ''INFERENCE_ENDPOINT'', getenv e ''SCW_SECRET_KEY'') of
        (Some m, Some u, Some k) \<Rightarrow>
          Inr \<lparr> model = m, endpoint = u, api_key = k, temperature = 3 / 10, max_tokens = 512 \<rparr>
      | _ \<Rightarrow> Inl (ValidationError ''none is not an allowed value''))"

definition headers :: "DeepSeekLLM \<Rightarrow> (string \<times> string) list" where
  "headers llm =
     [(''Authorization'', ''Bearer '' @ api_key llm),
      (''Content-Type'', ''application/json'')]"

definition system_prompt :: string where
  "system_prompt =
     ''You are an infrastructure automation agent for Scaleway.'' @ [CHR 0x0A] @
     ''Always reason using tools.'' @ [CHR 0x0A] @
     ''Use this structure:'' @ [CHR 0x0A] @
     ''Thought: what to do'' @ [CHR 0x0A] @
     ''Action: name of the tool'' @ [CHR 0x0A] @
     ''Action Input: the JSON input'' @ [CHR 0x0A] @
     ''Observation: result'' @ [CHR 0x0A] @
     ''Final Answer: the summary or output.''"

text \<open>The mapping bound to \<open>payload\<close> in \<open>_call\<close>.\<close>

definition build_payload :: "DeepSeekLLM \<Rightarrow> string \<Rightarrow> payload" where
  "build_payload llm prompt =
     \<lparr> p_model = model llm,
       p_messages =
         [\<lparr> role = ''system'', content = system_prompt \<rparr>,
          \<lparr> role = ''user'', content = prompt \<rparr>],
       p_temperature = temperature llm,
       p_max_tokens = max_tokens llm \<rparr>"

text \<open>
  \<open>response.raise_for_status()\<close> of the requests library raises \<open>HTTPError\<close> for a status
  from 400 to 599 and returns for every other status. The message is abbreviated to the
  status code.
\<close>

definition raise_for_status :: "http_response \<Rightarrow> exn + unit" where
  "raise_for_status response =
     (if 400 \<le> status_code response \<and> status_code response < 600
      then Inl (HTTPError (show_nat (status_code response) @ '' Error''))
      else Inr ())"

text \<open>The returned expression \<open>response_json["choices"][0]["message"]["content"]\<close>.\<close>

definition extract_content :: "pyval \<Rightarrow> exn + pyval" where
  "extract_content response_json =
     (case py_item response_json ''choices'' of
        Inl err \<Rightarrow> Inl err
      | Inr choices \<Rightarrow>
          (case py_first choices of
             Inl err \<Rightarrow> Inl err
           | Inr choice \<Rightarrow>
               (case py_item choice ''message'' of
                  Inl err \<Rightarrow> Inl err
                | Inr message \<Rightarrow> py_item message ''content'')))"

text \<open>
  \<open>DeepSeekLLM._call\<close>. The two \<open>print\<close> calls are left out; \<open>response.json()\<close> is
  \<open>json.loads\<close> on the text of the response. The result is whatever value the \<open>content\<close> field holds.
\<close>

definition DeepSeekLLM_call :: "env \<Rightarrow> DeepSeekLLM \<Rightarrow> string \<Rightarrow> exn + pyval" where
  "DeepSeekLLM_call e llm prompt =
     (case requests_post e (endpoint llm) (headers llm) (build_payload llm prompt) of
        Inl err \<Rightarrow> Inl err
      | Inr response \<Rightarrow>
          (case raise_for_status response of
             Inl err \<Rightarrow> Inl err
           | Inr _ \<Rightarrow>
               (case json_loads e (response_text response) of
                  Inl err \<Rightarrow> Inl err
                | Inr response_json \<Rightarrow> extract_content response_json)))"

subsection \<open>\<open>generate_terraform_code\<close>\<close>

text \<open>
  The dash of the instruction is U+2014, three bytes in UTF-8. Calling the model object,
  \<open>llm(full_prompt)\<close>, is the base class handing the prompt to \<open>_call\<close>.
\<close>

definition instruction :: string where
  "instruction =
     ''Respond ONLY with valid Terraform code '' @ [CHR 0xE2, CHR 0x80, CHR 0x94] @
     '' no explanation, no Markdown, no commentary.'' @ [CHR 0x0A] @
     ''Only output clean provider/resource blocks.''"

definition generate_terraform_code :: "env \<Rightarrow> string \<Rightarrow> exn + pyval" where
  "generate_terraform_code e prompt =
     (case new_DeepSeekLLM e of
        Inl err \<Rightarrow> Inl err
      | Inr llm \<Rightarrow>
          (let full_prompt = instruction @ [CHR 0x0A, CHR 0x0A] @ prompt
           in DeepSeekLLM_call e llm full_prompt))"

subsection \<open>\<open>get_agent\<close> and \<open>run_agent\<close>\<close>

text \<open>
  The module variable \<open>_agent\<close> is the state: \<open>None\<close> until the first call that builds the
  agent. The agent is the LangChain executor for the three tools; what \<open>agent.run\<close> does
  is the library's and stands in the world as \<open>agent_run\<close>.
\<close>

definition tools :: "string list" where
  "tools = [''validate_resource'', ''list_resources'', ''generate_terraform'']"

definition get_agent :: "env \<Rightarrow> agent option \<Rightarrow> (exn + agent) \<times> agent option" where
  "get_agent e cached =
     (case cached of
        Some a \<Rightarrow> (Inr a, Some a)
      | None \<Rightarrow>
          (case new_DeepSeekLLM e of
             Inl err \<Rightarrow> (Inl err, None)
           | Inr llm \<Rightarrow>
               (let a = \<lparr> agent_llm = llm, agent_tools = tools,
                          handle_parsing_errors = True, max_iterations = 3 \<rparr>
                in (Inr a, Some a))))"

definition run_agent :: "env \<Rightarrow> agent option \<Rightarrow> pyval \<Rightarrow> (exn + pyval) \<times> agent option" where
  "run_agent e cached prompt =
     (case get_agent e cached of
        (Inl err, cached') \<Rightarrow> (Inl err, cached')
      | (Inr a, cached') \<Rightarrow> (agent_run e a prompt, cached'))"

section \<open>main.py: the JSON endpoint\<close>

text \<open>
  \<open>agent_api\<close> is a plain \<open>def\<close>, and \<open>Request.json\<close> of the web framework is a coroutine
  function: the call \<open>request.json()\<close> reads nothing and raises nothing, it returns a
  coroutine object, which the handler never awaits. A request is given by what awaiting
  that coroutine would produce, the parsed body or the exception of a body that does not
  parse; an object is a value of the model or such a coroutine, and a coroutine has no
  method \<open>get\<close>. The first three statements of \<open>agent_api\<close> stand before the \<open>try\<close>.
\<close>

record request =
  request_json :: "exn + pyval"

datatype pyobj =
    Value pyval
  | Coroutine "exn + pyval"

fun obj_get :: "pyobj \<Rightarrow> string \<Rightarrow> pyval \<Rightarrow> exn + pyval" where
  "obj_get (Value v) k dflt = py_get v k dflt"
| "obj_get (Coroutine _) k dflt =
     Inl (AttributeError ([CHR 0x27] @ ''coroutine' object has no attribute 'get'' @ [CHR 0x27]))"

definition agent_api :: "env \<Rightarrow> agent option \<Rightarrow> request \<Rightarrow> (exn + pyval) \<times> agent option" where
  "agent_api e cached req =
     (let body = Coroutine (request_json req)
      in case obj_get body ''prompt'' PNone of
           Inl err \<Rightarrow> (Inl err, cached)
         | Inr prompt \<Rightarrow>
             if \<not> truthy prompt then (Inr (PDict [(''error'', PStr ''Missing prompt'')]), cached)
             else
               (case run_agent e cached prompt of
                  (Inr result, cached') \<Rightarrow> (Inr (PDict [(''result'', result)]), cached')
                | (Inl err, cached') \<Rightarrow>
                    (Inr (PDict [(''error'', PStr (exn_str err))]), cached')))"

section \<open>The shapes the specification expects\<close>

text \<open>
  What the specification expects the CLI to print: a JSON array of objects, each network
  with a \<open>name\<close> and a \<open>subnets\<close> array of objects with a \<open>cidr\<close> field, each bucket with a
  \<open>name\<close>. A network without \<open>subnets\<close> has none, as \<open>net.get("subnets", [])\<close> reads it.
\<close>

fun is_dict :: "pyval \<Rightarrow> bool" where
  "is_dict (PDict _) = True"
| "is_dict _ = False"

text \<open>\<open>field_eq k wanted obj\<close>: the object has the field \<open>k\<close> and its value \<open>== wanted\<close>.\<close>

fun field_eq :: "string \<Rightarrow> pyval \<Rightarrow> pyval \<Rightarrow> bool" where
  "field_eq k wanted (PDict d) = (case map_of d k of Some v \<Rightarrow> py_eq v wanted | None \<Rightarrow> False)"
| "field_eq k wanted _ = False"

fun subnets_of :: "pyval \<Rightarrow> pyval list" where
  "subnets_of (PDict d) = (case map_of d ''subnets'' of Some (PList ss) \<Rightarrow> ss | _ \<Rightarrow> [])"
| "subnets_of _ = []"

fun name_of :: "pyval \<Rightarrow> pyval" where
  "name_of (PDict d) = dict_get d ''name'' PNone"
| "name_of _ = PNone"

definition network_uses :: "pyval \<Rightarrow> pyval \<Rightarrow> bool" where
  "network_uses cidr net = list_ex (field_eq ''cidr'' cidr) (subnets_of net)"

fun wf_network :: "pyval \<Rightarrow> bool" where
  "wf_network (PDict d) =
     (map_of d ''name'' \<noteq> None \<and>
      (case map_of d ''subnets'' of
         None \<Rightarrow> True
       | Some (PList ss) \<Rightarrow> list_all is_dict ss
       | Some _ \<Rightarrow> False))"
| "wf_network _ = False"

text \<open>
  The response the specification expects of the language-model service,
  \<open>{choices: [{message: {content: ...}}]}\<close>: \<open>completion_field\<close> is the value of the completion
  field of a body that has it, \<open>completion_response s\<close> the smallest body whose completion
  is the text \<open>s\<close>.
\<close>

fun completion_field :: "pyval \<Rightarrow> pyval option" where
  "completion_field (PDict d) =
     (case map_of d ''choices'' of
        Some (PList (PDict c # _)) \<Rightarrow>
          (case map_of c ''message'' of
             Some (PDict m) \<Rightarrow> map_of m ''content''
           | _ \<Rightarrow> None)
      | _ \<Rightarrow> None)"
| "completion_field _ = None"

definition completion_response :: "string \<Rightarrow> pyval" where
  "completion_response s =
     PDict [(''choices'', PList [PDict [(''message'', PDict [(''content'', PStr s)])]])]"

section \<open>Concrete worlds\<close>

text \<open>
  Worlds for evaluating the functions on concrete inputs. In \<open>plain_env\<close> nothing is
  configured, no process can be started, nothing parses as JSON and every request fails to
  connect; the other worlds replace single fields of it.
\<close>

definition plain_env :: env where
  "plain_env =
     \<lparr> getenv = (\<lambda>_. None),
       subprocess_run = (\<lambda>_. Inl (OSError ''No such file or directory'')),
       json_loads = (\<lambda>_. Inl (JSONDecodeError ''Expecting value'')),
       py_str = type_name,
       requests_post = (\<lambda>_ _ _. Inl (ConnectionError ''Connection refused'')),
       agent_run = (\<lambda>_ _. Inl (AgentError ''agent failed'')) \<rparr>"

definition exits_with :: "int \<Rightarrow> string \<Rightarrow> string \<Rightarrow> env" where
  "exits_with rc out err =
     plain_env \<lparr> subprocess_run :=
       (\<lambda>_. Inr \<lparr> returncode = rc, stdout = out, stderr = err \<rparr>) \<rparr>"

text \<open>A CLI that exits with status 0 and prints \<open>text\<close>, which \<open>json.loads\<close> reads as \<open>listing\<close>.\<close>

definition listing_env :: "string \<Rightarrow> pyval \<Rightarrow> env" where
  "listing_env text listing =
     (exits_with 0 text [])
       \<lparr> json_loads :=
           (\<lambda>s. if s = text then Inr listing else Inl (JSONDecodeError ''Expecting value'')) \<rparr>"

definition vpc_listing_text :: string where
  \<open>vpc_listing_text = ''[{"name": "pn-a", "subnets": [{"cidr": "10.0.0.0/24"}]}]''\<close>

definition vpc_listing :: pyval where
  "vpc_listing =
     PList [PDict [(''name'', PStr ''pn-a''),
                   (''subnets'', PList [PDict [(''cidr'', PStr ''10.0.0.0/24'')]])]]"

definition bucket_listing_text :: string where
  \<open>bucket_listing_text = ''[{"name": "logs"}, {"name": "my-bucket"}]''\<close>

definition bucket_listing :: pyval where
  "bucket_listing = PList [PDict [(''name'', PStr ''logs'')], PDict [(''name'', PStr ''my-bucket'')]]"

definition unnamed_bucket_text :: string where
  \<open>unnamed_bucket_text = ''[{"name": ""}]''\<close>

text \<open>
  A world with the four environment variables set, and one where the language-model
  service answers every request with the given status and text.
\<close>

definition configured_env :: env where
  "configured_env =
     plain_env \<lparr> getenv :=
       map_of [(''MODEL_NAME'', ''deepseek-r1''),
               (''INFERENCE_ENDPOINT'', ''https://api.scaleway.ai/v1/chat/completions''),
               (''SCW_SECRET_KEY'', ''secret''),
               (''SCW_DEFAULT_PROJECT_ID'', ''project'')] \<rparr>"

definition responds_with :: "nat \<Rightarrow> string \<Rightarrow> pyval \<Rightarrow> env" where
  "responds_with status text response_json =
     configured_env
       \<lparr> json_loads :=
           (\<lambda>s. if s = text then Inr response_json else Inl (JSONDecodeError ''Expecting value'')),
         requests_post := (\<lambda>_ _ _. Inr \<lparr> status_code = status, response_text = text \<rparr>) \<rparr>"

text \<open>A configured world whose agent answers every prompt with \<open>done\<close>.\<close>

definition answering_env :: env where
  "answering_env = configured_env \<lparr> agent_run := (\<lambda>_ _. Inr (PStr ''done'')) \<rparr>"

definition demo_llm :: DeepSeekLLM where
  "demo_llm =
     \<lparr> model = ''deepseek-r1'', endpoint = ''https://api.scaleway.ai/v1/chat/completions'',
       api_key = ''secret'', temperature = 3 / 10, max_tokens = 512 \<rparr>"

section \<open>Properties of \<open>run_cli\<close>\<close>

lemma str_items_strings: "str_items i (map PStr argv) = Inr argv"
  by (induction argv arbitrary: i) auto

lemma run_cli_ran:
  "subprocess_run e argv = Inr result \<Longrightarrow>
   run_cli e (map PStr argv) = (Inr (cli_text result), [argv])"
  by (simp add: run_cli_def str_items_strings)


text \<open>
  \<^bold>\<open>C2\<close>, as stated, at a process that exits with status 1, writes nothing to stdout and
  \<open>boom\<close> to stderr: \<open>run_cli\<close> returns \<open>CLI Error: boom\<close>, which is not the command's stderr.
\<close>

theorem run_cli_stderr_counterexample:
  "subprocess_run (exits_with 1 [] ''boom'') [''scw'']
     = Inr \<lparr> returncode = 1, stdout = [], stderr = ''boom'' \<rparr>
   \<and> fst (run_cli (exits_with 1 [] ''boom'') [PStr ''scw'']) = Inr ''CLI Error: boom''
   \<and> fst (run_cli (exits_with 1 [] ''boom'') [PStr ''scw'']) \<noteq> Inr ''boom''"
proof -
  have "strip ''boom'' = ''boom''" and "strip [] = []"
    by code_simp+
  then show ?thesis
    by (simp add: exits_with_def plain_env_def run_cli_def cli_text_def)
qed

text \<open>
  \<^bold>\<open>C2\<close>, amended. For every argument vector whose process runs to its exit, \<open>run_cli\<close> returns
  normally, having started that one process. After a non-zero exit the result is
  \<open>CLI Error: \<close> followed by the stripped stderr, or by the stripped stdout when the stripped
  stderr is empty; after exit status 0 it is the stripped stdout when that is non-empty and
  the stripped stderr otherwise.
\<close>

theorem run_cli_returns_text:
  assumes "subprocess_run e argv = Inr result"
  shows "run_cli e (map PStr argv) =
           (Inr (if returncode result \<noteq> 0
                 then ''CLI Error: '' @ (if strip (stderr result) \<noteq> [] then strip (stderr result)
                                         else strip (stdout result))
                 else if strip (stdout result) \<noteq> [] then strip (stdout result)
                 else strip (stderr result)),
            [argv])"
  using assms by (simp add: run_cli_def str_items_strings cli_text_def Let_def)

theorem run_cli_returns_text_witness:
  "run_cli (exits_with 0 '' [] '' ''warn'') (map PStr [''scw'', ''vpc'']) = (Inr ''[]'', [[''scw'', ''vpc'']])"
proof -
  have ran: "subprocess_run (exits_with 0 '' [] '' ''warn'') [''scw'', ''vpc'']
               = Inr \<lparr> returncode = 0, stdout = '' [] '', stderr = ''warn'' \<rparr>"
    by (simp add: exits_with_def plain_env_def)
  have "strip '' [] '' = ''[]''"
    by code_simp
  with run_cli_returns_text [OF ran] show ?thesis
    by simp
qed

section \<open>Properties of \<open>validate_vpc\<close>\<close>

lemma py_eq_str_right: "py_eq v (PStr s) = (v = PStr s)"
  by (cases v) auto

lemma py_eq_none_left: "truthy v \<Longrightarrow> \<not> py_eq PNone v"
  by (cases v) auto

lemma cli_text_failure_prefix: "returncode result \<noteq> 0 \<Longrightarrow> prefix ''CLI Error'' (cli_text result)"
  by (simp add: cli_text_def)

lemma scan_subnets_dicts:
  "truthy cidr \<Longrightarrow> list_all is_dict ss \<Longrightarrow>
   scan_subnets cidr ss = Inr (list_ex (field_eq ''cidr'' cidr) ss)"
proof (induction ss)
  case Nil
  then show ?case by simp
next
  case (Cons s ss)
  then obtain d where s: "s = PDict d" by (cases s) auto
  from Cons show ?case
    by (auto simp: s py_eq_none_left split: option.splits)
qed

lemma scan_networks_wf:
  "truthy cidr \<Longrightarrow> list_all wf_network nets \<Longrightarrow>
   scan_networks e cidr nets =
     Inr (case find (network_uses cidr) nets of
            None \<Rightarrow> PDict [(''valid'', PBool True)]
          | Some net \<Rightarrow> vpc_conflict e cidr (name_of net))"
proof (induction nets)
  case Nil
  then show ?case by simp
next
  case (Cons net nets)
  then obtain d where net: "net = PDict d" by (cases net) auto
  from Cons.prems have wf: "wf_network (PDict d)" by (simp add: net)
  show ?case
  proof (cases "map_of d ''subnets''")
    case None
    with Cons wf show ?thesis
      by (auto simp: net network_uses_def dict_get_def)
  next
    case (Some v)
    with wf obtain ss where v: "v = PList ss" and ds: "list_all is_dict ss"
      by (cases v) auto
    from Cons wf Some show ?thesis
      by (auto simp: net v network_uses_def dict_get_def scan_subnets_dicts [OF Cons.prems(1) ds])
  qed
qed

lemma validate_vpc_ran:
  assumes "map_of parameters ''cidr'' = Some cidr" and "truthy cidr"
      and "subprocess_run e (vpc_command e) = Inr result"
  shows "validate_vpc e parameters =
           (if prefix ''CLI Error'' (cli_text result)
            then Inr (PDict [(''error'', PStr (cli_text result))])
            else (case vpc_try e cidr (cli_text result) of
                    Inr answer \<Rightarrow> Inr answer
                  | Inl err \<Rightarrow> Inr (PDict [(''error'', PStr (''JSON parsing error: '' @ exn_str err))])),
            [vpc_command e])"
  using assms
  by (simp add: validate_vpc_def dict_get_def run_cli_ran split: sum.splits)

text \<open>The guard \<open>if not cidr\<close>: a missing or falsy \<open>cidr\<close> is answered before any process starts.\<close>

lemma validate_vpc_falsy_cidr:
  "\<not> truthy (dict_get parameters ''cidr'' PNone) \<Longrightarrow>
   validate_resource e (PStr ''vpc'') parameters =
     (Inr (PDict [(''error'', PStr ''Missing 'cidr' parameter for VPC validation.'')]), [])"
  by (simp add: validate_resource_def validate_vpc_def)

text \<open>
  \<^bold>\<open>C1\<close>, as stated, at the mapping \<open>{"cidr": ""}\<close> and a CLI that lists no network: no subnet
  of any listed network has that CIDR, and the answer is not \<open>{valid: true}\<close> but the error
  mapping of the guard \<open>if not cidr\<close>, returned before the CLI is started.
\<close>

theorem validate_vpc_empty_cidr_counterexample:
  "map_of [(''cidr'', PStr [])] ''cidr'' = Some (PStr [])
   \<and> subprocess_run (listing_env ''[]'' (PList [])) (vpc_command (listing_env ''[]'' (PList [])))
       = Inr \<lparr> returncode = 0, stdout = ''[]'', stderr = [] \<rparr>
   \<and> json_loads (listing_env ''[]'' (PList []))
         (cli_text \<lparr> returncode = 0, stdout = ''[]'', stderr = [] \<rparr>) = Inr (PList [])
   \<and> find (network_uses (PStr [])) [] = None
   \<and> validate_resource (listing_env ''[]'' (PList [])) (PStr ''vpc'') [(''cidr'', PStr [])]
       = (Inr (PDict [(''error'', PStr ''Missing 'cidr' parameter for VPC validation.'')]), [])
   \<and> fst (validate_resource (listing_env ''[]'' (PList [])) (PStr ''vpc'') [(''cidr'', PStr [])])
       \<noteq> Inr (PDict [(''valid'', PBool True)])"
proof -
  have "strip ''[]'' = ''[]''" and "strip [] = []"
    by code_simp+
  then show ?thesis
    by (simp add: listing_env_def exits_with_def plain_env_def cli_text_def
        validate_resource_def validate_vpc_def dict_get_def)
qed

text \<open>
  \<^bold>\<open>C1\<close>, amended. Let the \<open>parameters\<close> hold a truthy \<open>cidr\<close> (a non-empty string, for one) and
  let the CLI process run to its exit. Then \<open>validate_resource("vpc", parameters)\<close> returns
  normally, having started the one listing command, and
  \<^item> when the process exits non-zero or its text is not parseable JSON, the answer is an
    error mapping;
  \<^item> when the process exits with status 0 and its text parses to an array of network
    objects of the expected shape, the answer is \<open>{valid: false}\<close> with the reason
    \<open>CIDR <cidr> already used in private network '<name>'\<close> for the first listed network
    with a subnet whose \<open>cidr\<close> equals the parameter, and \<open>{valid: true}\<close> when no subnet of
    any listed network has it.
\<close>

theorem validate_vpc_outcomes:
  assumes "map_of parameters ''cidr'' = Some cidr" and "truthy cidr"
      and "subprocess_run e (vpc_command e) = Inr result"
  shows "(returncode result \<noteq> 0 \<or> (\<exists>err. json_loads e (cli_text result) = Inl err) \<longrightarrow>
            (\<exists>msg. validate_resource e (PStr ''vpc'') parameters
                     = (Inr (PDict [(''error'', PStr msg)]), [vpc_command e])))
       \<and> (\<forall>nets. returncode result = 0 \<and> \<not> prefix ''CLI Error'' (cli_text result)
              \<and> json_loads e (cli_text result) = Inr (PList nets) \<and> list_all wf_network nets \<longrightarrow>
            validate_resource e (PStr ''vpc'') parameters =
              (Inr (case find (network_uses cidr) nets of
                      None \<Rightarrow> PDict [(''valid'', PBool True)]
                    | Some net \<Rightarrow> vpc_conflict e cidr (name_of net)),
               [vpc_command e]))"
proof -
  have vr: "validate_resource e (PStr ''vpc'') parameters = validate_vpc e parameters"
    by (simp add: validate_resource_def)
  note ran = validate_vpc_ran [OF assms]
  have failed: "returncode result \<noteq> 0 \<Longrightarrow> ?thesis"
    using cli_text_failure_prefix [of result] by (simp add: vr ran)
  show ?thesis
  proof (cases "returncode result = 0")
    case False
    then show ?thesis by (rule failed)
  next
    case zero: True
    show ?thesis
    proof (cases "prefix ''CLI Error'' (cli_text result)")
      case True
      then show ?thesis by (simp add: vr ran)
    next
      case False
      then show ?thesis
        using assms(2) zero
        by (auto simp: vr ran vpc_try_def scan_networks_wf split: sum.splits)
    qed
  qed
qed

theorem validate_vpc_outcomes_witness:
  "validate_resource (listing_env vpc_listing_text vpc_listing) (PStr ''vpc'')
     [(''cidr'', PStr ''10.0.0.0/24''), (''region'', PStr ''nl-ams'')]
   = (Inr (PDict [(''valid'', PBool False),
                  (''reason'', PStr (''CIDR 10.0.0.0/24 already used in private network 'pn-a''
                                     @ [CHR 0x27]))]),
      [[''scw'', ''vpc'', ''vpc'', ''list'', ''project-id=None'', ''--output'', ''json'']])"
proof -
  let ?e = "listing_env vpc_listing_text vpc_listing"
  let ?r = "\<lparr> returncode = 0, stdout = vpc_listing_text, stderr = [] \<rparr>"
  let ?net = "PDict [(''name'', PStr ''pn-a''),
                     (''subnets'', PList [PDict [(''cidr'', PStr ''10.0.0.0/24'')]])]"
  have cmd: "vpc_command ?e = [''scw'', ''vpc'', ''vpc'', ''list'', ''project-id=None'', ''--output'', ''json'']"
    by (simp add: vpc_command_def getenv_format_def listing_env_def exits_with_def plain_env_def)
  have out: "cli_text ?r = vpc_listing_text"
  proof -
    have "strip vpc_listing_text = vpc_listing_text" by code_simp
    moreover have "vpc_listing_text \<noteq> []" by (simp add: vpc_listing_text_def)
    ultimately show ?thesis by (simp add: cli_text_def)
  qed
  have h1: "map_of [(''cidr'', PStr ''10.0.0.0/24''), (''region'', PStr ''nl-ams'')] ''cidr''
              = Some (PStr ''10.0.0.0/24'')"
    by simp
  have h2: "truthy (PStr ''10.0.0.0/24'')"
    by simp
  have h3: "subprocess_run ?e (vpc_command ?e) = Inr ?r"
    by (simp add: listing_env_def exits_with_def plain_env_def)
  have h4: "returncode ?r = 0 \<and> \<not> prefix ''CLI Error'' (cli_text ?r)
            \<and> json_loads ?e (cli_text ?r) = Inr (PList [?net]) \<and> list_all wf_network [?net]"
    by (simp add: out) (simp add: vpc_listing_text_def vpc_listing_def listing_env_def)
  have "find (network_uses (PStr ''10.0.0.0/24'')) [?net] = Some ?net"
    by (simp add: network_uses_def)
  with validate_vpc_outcomes [OF h1 h2 h3] h4 show ?thesis
    by (simp add: cmd vpc_conflict_def py_format_def dict_get_def)
qed

text \<open>
  \<^bold>\<open>C10\<close>. \<open>validate_vpc\<close> reads \<open>region\<close> and never uses it: two parameter mappings that agree
  on every key but \<open>region\<close> get the same answer and start the same process, the argument
  vector has no item beginning with \<open>region\<close>.
\<close>

theorem validate_vpc_ignores_region:
  assumes "\<forall>k. k \<noteq> ''region'' \<longrightarrow> map_of p k = map_of q k"
  shows "validate_resource e (PStr ''vpc'') p = validate_resource e (PStr ''vpc'') q
       \<and> set (snd (validate_resource e (PStr ''vpc'') p)) \<subseteq> {vpc_command e}
       \<and> (\<forall>arg \<in> set (vpc_command e). \<not> prefix ''region'' arg)"
proof -
  from assms have "map_of p ''cidr'' = map_of q ''cidr''"
    by simp
  then have same: "validate_vpc e p = validate_vpc e q"
    by (simp add: validate_vpc_def dict_get_def)
  have calls: "set (snd (validate_vpc e p)) \<subseteq> {vpc_command e}"
    by (auto simp: validate_vpc_def run_cli_def str_items_strings Let_def
        split: sum.splits prod.splits if_splits)
  have "\<forall>arg \<in> set (vpc_command e). \<not> prefix ''region'' arg"
    by (simp add: vpc_command_def)
  with same calls show ?thesis
    by (simp add: validate_resource_def)
qed

theorem validate_vpc_ignores_region_witness:
  "validate_resource (listing_env vpc_listing_text vpc_listing) (PStr ''vpc'')
     [(''cidr'', PStr ''10.0.1.0/24''), (''region'', PStr ''fr-par'')]
   = validate_resource (listing_env vpc_listing_text vpc_listing) (PStr ''vpc'')
     [(''region'', PStr ''nl-ams''), (''cidr'', PStr ''10.0.1.0/24'')]"
proof -
  have "\<forall>k. k \<noteq> ''region'' \<longrightarrow>
          map_of [(''cidr'', PStr ''10.0.1.0/24''), (''region'', PStr ''fr-par'')] k
          = map_of [(''region'', PStr ''nl-ams''), (''cidr'', PStr ''10.0.1.0/24'')] k"
    by simp
  from validate_vpc_ignores_region [OF this] show ?thesis
    by blast
qed


section \<open>Properties of \<open>validate_object_storage\<close>\<close>

lemma bucket_command_strings: "bucket_command (PStr region) = map PStr (bucket_argv region)"
  by (simp add: bucket_command_def bucket_argv_def)

lemma scan_buckets_dicts:
  "truthy name \<Longrightarrow> list_all is_dict bs \<Longrightarrow>
   scan_buckets e name region bs =
     Inr (if list_ex (field_eq ''name'' name) bs then bucket_conflict e name region
          else PDict [(''valid'', PBool True)])"
proof (induction bs)
  case Nil
  then show ?case by simp
next
  case (Cons b bs)
  then obtain d where b: "b = PDict d" by (cases b) auto
  from Cons show ?case
    by (auto simp: b py_eq_none_left split: option.splits)
qed

lemma validate_object_storage_ran:
  assumes "map_of parameters ''name'' = Some name" and "truthy name"
      and "dict_get parameters ''region'' (PStr ''fr-par'') = PStr region"
      and "subprocess_run e (bucket_argv region) = Inr result"
  shows "validate_object_storage e parameters =
           (if prefix ''CLI Error'' (cli_text result)
            then Inr (PDict [(''error'', PStr (cli_text result))])
            else (case bucket_try e name (PStr region) (cli_text result) of
                    Inr answer \<Rightarrow> Inr answer
                  | Inl err \<Rightarrow> Inr (PDict [(''error'', PStr (''JSON parsing error: '' @ exn_str err))])),
            [bucket_argv region])"
  using assms
  by (simp add: validate_object_storage_def dict_get_def bucket_command_strings run_cli_ran
      split: sum.splits)

text \<open>A \<open>region\<close> that is not a string makes \<open>' '.join(command)\<close> raise, outside any \<open>try\<close>.\<close>

lemma validate_object_storage_region_type:
  assumes "map_of parameters ''name'' = Some name" and "truthy name"
      and "map_of parameters ''region'' = Some region" and "\<forall>s. region \<noteq> PStr s"
  shows "validate_object_storage e parameters =
           (Inl (TypeError (''sequence item 5: expected str instance, '' @ type_name region
                            @ '' found'')), [])"
proof -
  have "show_nat 5 = ''5''"
    by code_simp
  with assms show ?thesis
    by (cases region)
      (simp_all add: validate_object_storage_def dict_get_def bucket_command_def run_cli_def
        numeral_eq_Suc del: show_nat.simps)
qed

text \<open>The guard \<open>if not name\<close>: a missing or falsy \<open>name\<close> is answered before any process starts.\<close>

lemma validate_object_storage_falsy_name:
  "\<not> truthy (dict_get parameters ''name'' PNone) \<Longrightarrow>
   validate_resource e (PStr ''bucket'') parameters =
     (Inr (PDict [(''error'', PStr ''Missing 'name' parameter for bucket validation.'')]), [])"
  by (simp add: validate_resource_def validate_object_storage_def py_eq_str_right)

text \<open>
  \<^bold>\<open>C5\<close>, as stated, at the mapping \<open>{"name": ""}\<close> and a listing that holds a bucket object
  whose \<open>name\<close> is the empty string: a bucket with that name is present, and the answer is
  not \<open>{valid: false}\<close> but the error mapping of the guard \<open>if not name\<close>.
\<close>

theorem validate_bucket_empty_name_counterexample:
  "map_of [(''name'', PStr [])] ''name'' = Some (PStr [])
   \<and> subprocess_run (listing_env unnamed_bucket_text (PList [PDict [(''name'', PStr [])]]))
        (bucket_argv ''fr-par'')
       = Inr \<lparr> returncode = 0, stdout = unnamed_bucket_text, stderr = [] \<rparr>
   \<and> json_loads (listing_env unnamed_bucket_text (PList [PDict [(''name'', PStr [])]]))
         (cli_text \<lparr> returncode = 0, stdout = unnamed_bucket_text, stderr = [] \<rparr>)
       = Inr (PList [PDict [(''name'', PStr [])]])
   \<and> list_ex (field_eq ''name'' (PStr [])) [PDict [(''name'', PStr [])]]
   \<and> validate_resource (listing_env unnamed_bucket_text (PList [PDict [(''name'', PStr [])]]))
        (PStr ''bucket'') [(''name'', PStr [])]
       = (Inr (PDict [(''error'', PStr ''Missing 'name' parameter for bucket validation.'')]), [])"
proof -
  have "strip unnamed_bucket_text = unnamed_bucket_text" and "strip [] = []"
    by code_simp+
  moreover have "unnamed_bucket_text \<noteq> []"
    by (simp add: unnamed_bucket_text_def)
  ultimately show ?thesis
    by (simp add: listing_env_def exits_with_def plain_env_def cli_text_def
        validate_resource_def validate_object_storage_def dict_get_def)
qed

text \<open>
  \<^bold>\<open>C5\<close>, amended. Let the \<open>parameters\<close> hold a truthy \<open>name\<close> and a \<open>region\<close> that is a string
  (or none, which reads as \<open>fr-par\<close>), and let the CLI process for that region run to its
  exit. Then \<open>validate_resource("bucket", parameters)\<close> returns normally and
  \<^item> when the process exits non-zero or its text is not parseable JSON, the answer is an
    error mapping;
  \<^item> when the process exits with status 0 and its text parses to an array of objects, the
    answer is \<open>{valid: false}\<close>, with its reason, if some listed object has a \<open>name\<close> equal to
    the parameter, and \<open>{valid: true}\<close> if none has.
\<close>

theorem validate_bucket_outcomes:
  assumes "map_of parameters ''name'' = Some name" and "truthy name"
      and "dict_get parameters ''region'' (PStr ''fr-par'') = PStr region"
      and "subprocess_run e (bucket_argv region) = Inr result"
  shows "(returncode result \<noteq> 0 \<or> (\<exists>err. json_loads e (cli_text result) = Inl err) \<longrightarrow>
            (\<exists>msg. validate_resource e (PStr ''bucket'') parameters
                     = (Inr (PDict [(''error'', PStr msg)]), [bucket_argv region])))
       \<and> (\<forall>buckets. returncode result = 0 \<and> \<not> prefix ''CLI Error'' (cli_text result)
              \<and> json_loads e (cli_text result) = Inr (PList buckets) \<and> list_all is_dict buckets \<longrightarrow>
            validate_resource e (PStr ''bucket'') parameters =
              (Inr (if list_ex (field_eq ''name'' name) buckets
                    then bucket_conflict e name (PStr region)
                    else PDict [(''valid'', PBool True)]),
               [bucket_argv region]))"
proof -
  have vr: "validate_resource e (PStr ''bucket'') parameters = validate_object_storage e parameters"
    by (simp add: validate_resource_def)
  note ran = validate_object_storage_ran [OF assms]
  have failed: "returncode result \<noteq> 0 \<Longrightarrow> ?thesis"
    using cli_text_failure_prefix [of result] by (simp add: vr ran)
  show ?thesis
  proof (cases "returncode result = 0")
    case False
    then show ?thesis by (rule failed)
  next
    case zero: True
    show ?thesis
    proof (cases "prefix ''CLI Error'' (cli_text result)")
      case True
      then show ?thesis by (simp add: vr ran)
    next
      case False
      then show ?thesis
        using assms(2) zero
        by (auto simp: vr ran bucket_try_def scan_buckets_dicts split: sum.splits)
    qed
  qed
qed

theorem validate_bucket_outcomes_witness:
  "validate_resource (listing_env bucket_listing_text bucket_listing) (PStr ''bucket'')
     [(''name'', PStr ''my-bucket''), (''region'', PStr ''nl-ams'')]
   = (Inr (PDict [(''valid'', PBool False),
                  (''reason'', PStr ''Bucket 'my-bucket' already exists in region nl-ams'')]),
      [[''scw'', ''object'', ''bucket'', ''list'', ''region'', ''nl-ams'', ''--output'', ''json'']])"
proof -
  let ?e = "listing_env bucket_listing_text bucket_listing"
  let ?r = "\<lparr> returncode = 0, stdout = bucket_listing_text, stderr = [] \<rparr>"
  let ?p = "[(''name'', PStr ''my-bucket''), (''region'', PStr ''nl-ams'')]"
  let ?bs = "[PDict [(''name'', PStr ''logs'')], PDict [(''name'', PStr ''my-bucket'')]]"
  have out: "cli_text ?r = bucket_listing_text"
  proof -
    have "strip bucket_listing_text = bucket_listing_text" by code_simp
    moreover have "bucket_listing_text \<noteq> []" by (simp add: bucket_listing_text_def)
    ultimately show ?thesis by (simp add: cli_text_def)
  qed
  have h1: "map_of ?p ''name'' = Some (PStr ''my-bucket'')"
    by simp
  have h2: "truthy (PStr ''my-bucket'')"
    by simp
  have h3: "dict_get ?p ''region'' (PStr ''fr-par'') = PStr ''nl-ams''"
    by (simp add: dict_get_def)
  have h4: "subprocess_run ?e (bucket_argv ''nl-ams'') = Inr ?r"
    by (simp add: listing_env_def exits_with_def plain_env_def)
  have h5: "returncode ?r = 0 \<and> \<not> prefix ''CLI Error'' (cli_text ?r)
            \<and> json_loads ?e (cli_text ?r) = Inr (PList ?bs) \<and> list_all is_dict ?bs"
    by (simp add: out) (simp add: bucket_listing_text_def bucket_listing_def listing_env_def)
  have "list_ex (field_eq ''name'' (PStr ''my-bucket'')) ?bs"
    by simp
  with validate_bucket_outcomes [OF h1 h2 h3 h4] h5 show ?thesis
    by (simp add: bucket_argv_def bucket_conflict_def py_format_def)
qed

section \<open>Unsupported resource types\<close>

text \<open>
  \<^bold>\<open>C6\<close>. For a resource type other than \<open>vpc\<close> and \<open>bucket\<close>, \<open>list_resources\<close> and
  \<open>validate_resource\<close> return their error mappings and start no process.
\<close>

theorem unsupported_resource_type:
  assumes "resource_type \<noteq> PStr ''vpc''" and "resource_type \<noteq> PStr ''bucket''"
  shows "list_resources e resource_type region =
           (Inr (PDict [(''error'',
                   PStr (''Unsupported resource type: '' @ py_format e resource_type))]), [])
       \<and> validate_resource e resource_type parameters =
           (Inr (PDict [(''error'',
                   PStr (''Validation for resource type '' @ [CHR 0x27]
                         @ py_format e resource_type @ [CHR 0x27] @ '' not implemented.''))]), [])"
  using assms
  by (simp add: list_resources_def validate_resource_def py_eq_str_right)

theorem unsupported_resource_type_witness:
  "list_resources plain_env (PStr ''unsupported-kind'') (PStr ''fr-par'') =
     (Inr (PDict [(''error'', PStr ''Unsupported resource type: unsupported-kind'')]), [])
   \<and> validate_resource plain_env (PStr ''unsupported-kind'') [(''cidr'', PStr ''10.0.0.0/24'')] =
     (Inr (PDict [(''error'',
             PStr ''Validation for resource type 'unsupported-kind' not implemented.'')]), [])"
proof -
  have "PStr ''unsupported-kind'' \<noteq> PStr ''vpc''" and "PStr ''unsupported-kind'' \<noteq> PStr ''bucket''"
    by simp_all
  from unsupported_resource_type [OF this, of plain_env "PStr ''fr-par''" "[(''cidr'', PStr ''10.0.0.0/24'')]"]
  show ?thesis
    by (simp add: py_format_def)
qed



section \<open>Properties of the completion client\<close>

lemma extract_content_iff: "extract_content j = Inr v \<longleftrightarrow> completion_field j = Some v"
proof (cases j)
  case (PDict d)
  show ?thesis
  proof (cases "map_of d ''choices''")
    case None
    then show ?thesis by (simp add: PDict extract_content_def)
  next
    case (Some choices)
    show ?thesis
    proof (cases choices)
      case (PList xs)
      show ?thesis
      proof (cases xs)
        case Nil
        then show ?thesis by (simp add: PDict Some PList extract_content_def)
      next
        case (Cons choice rest)
        show ?thesis
        proof (cases choice)
          case c: (PDict c)
          show ?thesis
          proof (cases "map_of c ''message''")
            case None
            then show ?thesis by (simp add: PDict Some PList Cons c extract_content_def)
          next
            case m: (Some message)
            then show ?thesis
              by (cases message)
                (auto simp: PDict Some PList Cons c extract_content_def split: option.splits)
          qed
        qed (simp_all add: PDict Some PList Cons extract_content_def)
      qed
    next
      case (PStr t)
      then show ?thesis
        by (cases t) (simp_all add: PDict Some extract_content_def)
    qed (simp_all add: PDict Some extract_content_def)
  qed
qed (simp_all add: extract_content_def)

text \<open>
  \<^bold>\<open>C7\<close>, as stated, at a response with status 304 and a body of the expected shape: the
  status is not a success status, yet \<open>raise_for_status\<close> lets it pass and the call returns
  the content instead of failing.
\<close>

theorem call_redirect_status_counterexample:
  "requests_post (responds_with 304 ''{...}'' (completion_response ''ok''))
      (endpoint demo_llm) (headers demo_llm) (build_payload demo_llm ''hi'')
     = Inr \<lparr> status_code = 304, response_text = ''{...}'' \<rparr>
   \<and> \<not> (200 \<le> (304::nat) \<and> (304::nat) < 300)
   \<and> DeepSeekLLM_call (responds_with 304 ''{...}'' (completion_response ''ok'')) demo_llm ''hi''
     = Inr (PStr ''ok'')"
  by (simp add: responds_with_def completion_response_def DeepSeekLLM_call_def
      raise_for_status_def extract_content_def)

text \<open>
  \<^bold>\<open>C7\<close>, amended. The completion call returns a value exactly when the HTTP call returns a
  response whose status is outside 400 to 599 and whose body is JSON with the completion
  field \<open>choices[0].message.content\<close>, and the value is that field's; in every other case
  (the HTTP call raises, the status is a 4xx or 5xx, the body is not JSON or lacks the
  field) it raises.
\<close>

theorem call_returns_iff:
  "DeepSeekLLM_call e llm prompt = Inr v \<longleftrightarrow>
     (\<exists>response j.
        requests_post e (endpoint llm) (headers llm) (build_payload llm prompt) = Inr response
        \<and> \<not> (400 \<le> status_code response \<and> status_code response < 600)
        \<and> json_loads e (response_text response) = Inr j
        \<and> completion_field j = Some v)"
  by (auto simp: DeepSeekLLM_call_def raise_for_status_def extract_content_iff
      split: sum.splits if_splits)

theorem call_returns_iff_witness:
  "DeepSeekLLM_call (responds_with 200 ''{...}'' (completion_response ''ok'')) demo_llm ''hi''
     = Inr (PStr ''ok'')
   \<and> (\<forall>v. DeepSeekLLM_call (responds_with 500 ''{...}'' (completion_response ''ok'')) demo_llm ''hi''
           \<noteq> Inr v)"
proof -
  have "DeepSeekLLM_call (responds_with 200 ''{...}'' (completion_response ''ok'')) demo_llm ''hi''
          = Inr (PStr ''ok'')"
    unfolding call_returns_iff
    by (simp add: responds_with_def completion_response_def)
  moreover have "DeepSeekLLM_call (responds_with 500 ''{...}'' (completion_response ''ok'')) demo_llm ''hi''
          \<noteq> Inr v" for v
    unfolding call_returns_iff
    by (simp add: responds_with_def)
  ultimately show ?thesis by blast
qed

text \<open>
  \<^bold>\<open>C8\<close>. Round trip: for every completion text \<open>s\<close>, when the request built from the prompt
  is answered with a success status and the well-formed body
  \<open>{choices: [{message: {content: s}}]}\<close>, the call returns exactly \<open>s\<close>; the payload carries
  the system instruction first and the prompt, unchanged, as the user message second.
\<close>

theorem completion_round_trip:
  assumes "requests_post e (endpoint llm) (headers llm) (build_payload llm prompt) = Inr response"
      and "200 \<le> status_code response \<and> status_code response < 300"
      and "json_loads e (response_text response) = Inr (completion_response s)"
  shows "DeepSeekLLM_call e llm prompt = Inr (PStr s)
       \<and> p_messages (build_payload llm prompt)
           = [\<lparr> role = ''system'', content = system_prompt \<rparr>,
              \<lparr> role = ''user'', content = prompt \<rparr>]"
  using assms
  by (simp add: DeepSeekLLM_call_def raise_for_status_def extract_content_def
      completion_response_def build_payload_def)

theorem completion_round_trip_witness:
  "DeepSeekLLM_call (responds_with 200 ''{...}'' (completion_response ''resource {}'')) demo_llm
     ''create a bucket'' = Inr (PStr ''resource {}'')
   \<and> map content (p_messages (build_payload demo_llm ''create a bucket''))
       = [system_prompt, ''create a bucket'']
   \<and> map role (p_messages (build_payload demo_llm ''create a bucket'')) = [''system'', ''user'']"
proof -
  let ?e = "responds_with 200 ''{...}'' (completion_response ''resource {}'')"
  let ?r = "\<lparr> status_code = 200, response_text = ''{...}'' \<rparr>"
  have h1: "requests_post ?e (endpoint demo_llm) (headers demo_llm)
              (build_payload demo_llm ''create a bucket'') = Inr ?r"
    by (simp add: responds_with_def)
  have h2: "200 \<le> status_code ?r \<and> status_code ?r < 300"
    by simp
  have h3: "json_loads ?e (response_text ?r) = Inr (completion_response ''resource {}'')"
    by (simp add: responds_with_def)
  from completion_round_trip [OF h1 h2 h3] show ?thesis
    by simp
qed

lemma generate_terraform_code_post_raises:
  assumes "new_DeepSeekLLM e = Inr llm"
      and "requests_post e (endpoint llm) (headers llm)
             (build_payload llm (instruction @ [CHR 0x0A, CHR 0x0A] @ prompt)) = Inl err"
  shows "generate_terraform_code e prompt = Inl err"
  using assms by (simp add: generate_terraform_code_def DeepSeekLLM_call_def)

text \<open>
  \<^bold>\<open>C4\<close>, evaluated where the upstream fails: \<open>generate_terraform_code\<close> has no handler, so a
  refused connection, a status 500 and a body without \<open>choices\<close> each leave it as the
  exception \<open>_call\<close> raised, not as an error result.
\<close>

theorem generate_terraform_code_raises:
  "generate_terraform_code configured_env ''create a bucket''
     = Inl (ConnectionError ''Connection refused'')
   \<and> generate_terraform_code (responds_with 500 ''Internal Server Error'' PNone) ''create a bucket''
     = Inl (HTTPError ''500 Error'')
   \<and> generate_terraform_code (responds_with 200 ''{}'' (PDict [])) ''create a bucket''
     = Inl (KeyError (CHR 0x27 # ''choices'' @ [CHR 0x27]))"
proof -
  have "show_nat 500 = ''500''"
    by code_simp
  then show ?thesis
    by (simp add: generate_terraform_code_def new_DeepSeekLLM_def configured_env_def plain_env_def
        responds_with_def DeepSeekLLM_call_def raise_for_status_def extract_content_def)
qed

section \<open>Properties of the JSON endpoint\<close>

text \<open>
  Whatever the request, the world and the cached agent: \<open>body.get\<close> raises on the coroutine,
  and neither the guard on \<open>prompt\<close> nor \<open>run_agent\<close> is reached.
\<close>

lemma agent_api_always_raises:
  "agent_api e cached req =
     (Inl (AttributeError ([CHR 0x27] @ ''coroutine' object has no attribute 'get'' @ [CHR 0x27])),
      cached)"
  by (simp add: agent_api_def)

text \<open>
  \<^bold>\<open>C9\<close>, evaluated on three requests in a world whose agent would answer: a body with a
  \<open>prompt\<close>, a JSON object without \<open>prompt\<close>, and a body that does not parse. Each raises
  \<open>AttributeError\<close> before the \<open>try\<close> of \<open>agent_api\<close> is entered; the exception leaves the
  handler, and the caller gets neither the agent's text nor an error mapping.
\<close>

theorem agent_api_raises:
  "agent_api answering_env None \<lparr> request_json = Inr (PDict [(''prompt'', PStr ''create a vpc'')]) \<rparr>
     = (Inl (AttributeError (CHR 0x27 # ''coroutine' object has no attribute 'get'' @ [CHR 0x27])),
        None)
   \<and> agent_api answering_env None \<lparr> request_json = Inr (PDict []) \<rparr>
     = (Inl (AttributeError (CHR 0x27 # ''coroutine' object has no attribute 'get'' @ [CHR 0x27])),
        None)
   \<and> agent_api answering_env None \<lparr> request_json = Inl (JSONDecodeError ''Expecting value'') \<rparr>
     = (Inl (AttributeError (CHR 0x27 # ''coroutine' object has no attribute 'get'' @ [CHR 0x27])),
        None)"
  by (simp add: agent_api_def)

end
